theory Spec2Isabelle
  imports Main
begin

section \<open>JavaScript values, errors and promises\<close>

text \<open>
  The values the adapter receives from the transport and hands to its callers.
  Numbers are integers here: the only numbers the adapter computes itself come from
  \<^verbatim>\<open>Number.parseInt\<close> on digit strings. \<open>NaN\<close> is the result of parsing an empty
  string, and \<open>Rounded n\<close> stands for the double nearest to an integer \<open>n\<close> above
  \<open>2 ^ 53\<close>, where a double no longer holds every integer exactly.
\<close>

datatype jsval =
    Undefined
  | Null
  | Bool bool
  | Num int
  | NaN
  | Rounded int
  | Str string
  | Arr "jsval list"
  | Obj "(string \<times> jsval) list"

text \<open>JavaScript truthiness (\<^verbatim>\<open>if (v)\<close>, \<^verbatim>\<open>v ? a : b\<close>, \<^verbatim>\<open>v && w\<close>).\<close>

fun truthy :: "jsval \<Rightarrow> bool" where
  "truthy Undefined = False"
| "truthy Null = False"
| "truthy (Bool b) = b"
| "truthy (Num n) = (n \<noteq> 0)"
| "truthy NaN = False"
| "truthy (Rounded n) = True"
| "truthy (Str s) = (s \<noteq> [])"
| "truthy (Arr xs) = True"
| "truthy (Obj kvs) = True"

text \<open>
  Property read \<^verbatim>\<open>v.k\<close> on a value that is not \<^verbatim>\<open>undefined\<close> or \<^verbatim>\<open>null\<close>: an own
  property of an object, \<^verbatim>\<open>undefined\<close> otherwise (the adapter only reads
  \<^verbatim>\<open>insertId\<close>, \<^verbatim>\<open>Field\<close>, \<^verbatim>\<open>Type\<close>, \<^verbatim>\<open>Null\<close> and \<^verbatim>\<open>Default\<close>, none of which a
  string, a number or an array has).
\<close>

fun js_get :: "jsval \<Rightarrow> string \<Rightarrow> jsval" where
  "js_get (Obj kvs) k = (case map_of kvs k of Some v \<Rightarrow> v | None \<Rightarrow> Undefined)"
| "js_get v k = Undefined"

text \<open>The error object the \<^verbatim>\<open>mysql\<close> transport passes to a callback.\<close>

datatype native_error =
  NativeError (err_code: string) (err_stack: string) (err_message: string)

text \<open>
  What a promise can be rejected with: \<^verbatim>\<open>new Error(msg)\<close> built by the adapter, the
  transport's own error object passed on as it is, or a \<^verbatim>\<open>TypeError\<close> thrown by the
  runtime (a property read on \<^verbatim>\<open>undefined\<close> or \<^verbatim>\<open>null\<close>, a call of something that is
  not a function, an iteration over something that is not iterable).
\<close>

datatype err = Error string | Native native_error | TypeError

text \<open>
  A promise and its two settling functions. A promise settles once: \<^verbatim>\<open>accept\<close> and
  \<^verbatim>\<open>reject\<close> on a settled promise do nothing.
\<close>

datatype 'a promise = Pending | Fulfilled 'a | Rejected err

fun accept :: "'a \<Rightarrow> 'a promise \<Rightarrow> 'a promise" where
  "accept v Pending = Fulfilled v"
| "accept v p = p"

fun reject :: "err \<Rightarrow> 'a promise \<Rightarrow> 'a promise" where
  "reject e Pending = Rejected e"
| "reject e p = p"

section \<open>The adapter and its transport\<close>

text \<open>
  A connection handle is a JavaScript object, compared by identity. A handle is either
  one the caller injected through \<^verbatim>\<open>config.client\<close>, or the object returned by the
  \<open>n\<close>-th call of \<^verbatim>\<open>mysql.createConnection\<close>, which is a new object each time.
\<close>

datatype handle = Injected nat | Created nat

text \<open>The calls the adapter makes on the transport, in order.\<close>

datatype call =
    CreateConnection handle
  | ConnectCall handle
  | QueryCall handle string
  | EndCall handle

text \<open>
  The part of the constructor's \<^verbatim>\<open>config\<close> the connection logic reads:
  \<^verbatim>\<open>config.database\<close> and \<^verbatim>\<open>config.client\<close> (\<^verbatim>\<open>config.driver\<close> in the second copy
  of the source); \<open>None\<close> is \<^verbatim>\<open>undefined\<close> (what the defaults give), and \<open>Some k\<close> is the
  \<open>k\<close>-th object of the caller's own.
\<close>

record config =
  cfg_database :: "string option"
  cfg_client :: "nat option"

text \<open>
  The instance fields \<^verbatim>\<open>_config.database\<close>, \<^verbatim>\<open>_client\<close> (\<^verbatim>\<open>_driver\<close> in the second
  copy), \<^verbatim>\<open>_connected\<close> and \<^verbatim>\<open>_lastInsertId\<close>, together with the transport's side of
  the world: how many connections \<^verbatim>\<open>mysql.createConnection\<close> has made, and the calls
  received so far.
\<close>

record sys =
  database :: "string option"
  priv_client :: "handle option"
  priv_connected :: bool
  priv_lastInsertId :: jsval
  created :: nat
  calls :: "call list"

text \<open>
  \<^verbatim>\<open>constructor(config)\<close>: \<^verbatim>\<open>this._client = config.client; this._connected = false\<close>.
  \<^verbatim>\<open>_lastInsertId\<close> is not assigned, so reading it gives \<^verbatim>\<open>undefined\<close>.
\<close>

definition constructor :: "config \<Rightarrow> sys" where
  "constructor cfg =
     \<lparr> database = cfg_database cfg,
       priv_client = map_option Injected (cfg_client cfg),
       priv_connected = False,
       priv_lastInsertId = Undefined,
       created = 0,
       calls = [] \<rparr>"

definition client :: "sys \<Rightarrow> handle option" where
  "client s = priv_client s"

definition connected :: "sys \<Rightarrow> bool" where
  "connected s = priv_connected s"

definition lastInsertId :: "sys \<Rightarrow> jsval" where
  "lastInsertId s = priv_lastInsertId s"

text \<open>\<^verbatim>\<open>!config.database\<close>: the name is \<^verbatim>\<open>undefined\<close> or the empty string.\<close>

definition no_database :: "sys \<Rightarrow> bool" where
  "no_database s = (case database s of None \<Rightarrow> True | Some d \<Rightarrow> d = [])"

text \<open>
  \<^verbatim>\<open>var client = mysql.createConnection(config); self._client = client;
  client.connect(...)\<close>: the handle is stored before the transport answers.
\<close>

definition createConnection :: "sys \<Rightarrow> handle \<times> sys" where
  "createConnection s =
     (let c = Created (created s)
      in (c, s\<lparr> priv_client := Some c,
                created := Suc (created s),
                calls := calls s @ [CreateConnection c, ConnectCall c] \<rparr>))"

text \<open>
  The callback of \<^verbatim>\<open>client.connect\<close>, called by the transport with its error or with
  nothing:
  \<^verbatim>\<open>if (err) { return reject(new Error('Unable to connect to host , error ' + err.code
  + ' ' + err.stack)); } self._connected = true; accept(client)\<close>.
  The error's \<^verbatim>\<open>code\<close> and \<^verbatim>\<open>stack\<close> are strings, as the transport's errors have them.
\<close>

definition connect_callback ::
  "native_error option \<Rightarrow> handle \<Rightarrow> handle promise \<times> sys \<Rightarrow> handle promise \<times> sys" where
  "connect_callback e c ps =
     (case e of
        Some ne \<Rightarrow>
          (reject (Error (''Unable to connect to host , error '' @ err_code ne @ '' '' @ err_stack ne))
             (fst ps), snd ps)
      | None \<Rightarrow> (accept c (fst ps), (snd ps)\<lparr> priv_connected := True \<rparr>))"

text \<open>
  \<^verbatim>\<open>connect()\<close>. The first argument is the transport's answer to \<^verbatim>\<open>client.connect\<close>,
  read only when the transport is contacted; the promise is returned as it stands once
  that callback has run.
\<close>

definition connect :: "native_error option \<Rightarrow> sys \<Rightarrow> handle promise \<times> sys" where
  "connect tr s =
     (case priv_client s of
        Some c \<Rightarrow> (Fulfilled c, s)
      | None \<Rightarrow>
          if no_database s
          then (Rejected (Error ''Error, no database name has been configured.''), s)
          else (let (c, s1) = createConnection s in connect_callback tr c (Pending, s1)))"

text \<open>
  \<^verbatim>\<open>disconnect()\<close>:
  \<^verbatim>\<open>if (!this._client) return true; this._client.end(); this._client = undefined;
  this._connected = false; return true\<close>.
\<close>

definition disconnect :: "sys \<Rightarrow> bool \<times> sys" where
  "disconnect s =
     (case priv_client s of
        None \<Rightarrow> (True, s)
      | Some c \<Rightarrow>
          (True, s\<lparr> priv_client := None, priv_connected := False, calls := calls s @ [EndCall c] \<rparr>))"

section \<open>Queries\<close>

text \<open>
  What \<^verbatim>\<open>query\<close> resolves with: \<^verbatim>\<open>true\<close>, \<^verbatim>\<open>new cursor({ data: data })\<close>, or (second
  copy of the source only) the falsy \<^verbatim>\<open>data\<close> itself.
\<close>

datatype qresult = AckTrue | Cursor jsval | Raw jsval

text \<open>
  The callback of \<^verbatim>\<open>self._client.query(sql, ...)\<close>, called by the transport with
  \<^verbatim>\<open>(err, data)\<close>:
  \<^verbatim>\<open>if (err) { return reject(err); }
  if (data && data.insertId !== undefined) { self._lastInsertId = data.insertId; accept(true); }
  else { accept(data ? new cursor({ data: data }) : true); }\<close>
\<close>

definition query_callback ::
  "native_error option \<Rightarrow> jsval \<Rightarrow> qresult promise \<times> sys \<Rightarrow> qresult promise \<times> sys" where
  "query_callback e data ps =
     (case e of
        Some ne \<Rightarrow> (reject (Native ne) (fst ps), snd ps)
      | None \<Rightarrow>
          if truthy data \<and> js_get data ''insertId'' \<noteq> Undefined
          then (accept AckTrue (fst ps),
                (snd ps)\<lparr> priv_lastInsertId := js_get data ''insertId'' \<rparr>)
          else (accept (if truthy data then Cursor data else AckTrue) (fst ps), snd ps))"

text \<open>
  \<^verbatim>\<open>query(sql)\<close>. \<open>tr\<close> is the transport's answer to \<^verbatim>\<open>client.connect\<close> (read only when
  a connection is opened), \<open>e\<close> and \<open>data\<close> are its answer to the statement.
  \<^verbatim>\<open>self.connect().then(function() { ... })\<close> has a fulfilment handler only: when the
  promise of \<^verbatim>\<open>connect\<close> is rejected the handler does not run, and nothing ever calls
  \<^verbatim>\<open>accept\<close> or \<^verbatim>\<open>reject\<close> of the query's promise. The same holds if \<^verbatim>\<open>self._client\<close>
  were \<^verbatim>\<open>undefined\<close> inside the handler: the \<^verbatim>\<open>TypeError\<close> would reject the promise
  \<^verbatim>\<open>then\<close> returns, which nobody holds.
\<close>

definition query ::
  "string \<Rightarrow> native_error option \<Rightarrow> native_error option \<Rightarrow> jsval \<Rightarrow> sys
     \<Rightarrow> qresult promise \<times> sys" where
  "query sql tr e data s =
     (let (c, s1) = connect tr s
      in case c of
           Fulfilled _ \<Rightarrow>
             (case priv_client s1 of
                Some cl \<Rightarrow>
                  query_callback e data (Pending, s1\<lparr> calls := calls s1 @ [QueryCall cl sql] \<rparr>)
              | None \<Rightarrow> (Pending, s1))
         | _ \<Rightarrow> (Pending, s1))"

section \<open>The second copy of the source\<close>

text \<open>
  The second copy keeps the handle in \<^verbatim>\<open>_driver\<close> (the field \<open>priv_client\<close> here) and has
  no \<^verbatim>\<open>_connected\<close> flag. Its callbacks do not return after \<^verbatim>\<open>reject\<close>:
  \<^verbatim>\<open>if (err) { reject(new Error(...)); } accept(driver)\<close>.
\<close>

definition connect_callback2 ::
  "native_error option \<Rightarrow> handle \<Rightarrow> handle promise \<times> sys \<Rightarrow> handle promise \<times> sys" where
  "connect_callback2 e d ps =
     (let p1 = (case e of
                  Some ne \<Rightarrow>
                    reject (Error (''Unable to connect to host , error '' @ err_code ne @ '' '' @ err_stack ne))
                      (fst ps)
                | None \<Rightarrow> fst ps)
      in (accept d p1, snd ps))"

definition connect2 :: "native_error option \<Rightarrow> sys \<Rightarrow> handle promise \<times> sys" where
  "connect2 tr s =
     (case priv_client s of
        Some d \<Rightarrow> (Fulfilled d, s)
      | None \<Rightarrow>
          if no_database s
          then (Rejected (Error ''Error, no database name has been configured.''), s)
          else (let (d, s1) = createConnection s in connect_callback2 tr d (Pending, s1)))"

text \<open>\<^verbatim>\<open>connected() { return !!this._driver; }\<close>\<close>

definition connected2 :: "sys \<Rightarrow> bool" where
  "connected2 s = (priv_client s \<noteq> None)"

text \<open>
  \<^verbatim>\<open>if (err) { reject(err); }
  if (data) { this._lastInsertId = data.insertId; data = new cursor({ data: data }); }
  accept(data)\<close>
\<close>

definition query_callback2 ::
  "native_error option \<Rightarrow> jsval \<Rightarrow> qresult promise \<times> sys \<Rightarrow> qresult promise \<times> sys" where
  "query_callback2 e data ps =
     (let p1 = (case e of Some ne \<Rightarrow> reject (Native ne) (fst ps) | None \<Rightarrow> fst ps)
      in if truthy data
         then (accept (Cursor data) p1,
               (snd ps)\<lparr> priv_lastInsertId := js_get data ''insertId'' \<rparr>)
         else (accept (Raw data) p1, snd ps))"

text \<open>\<^verbatim>\<open>this.driver().then(function() { this._driver.query(sql, ...) })\<close>, where
  \<^verbatim>\<open>driver()\<close> is \<^verbatim>\<open>connect()\<close>.\<close>

definition query2 ::
  "string \<Rightarrow> native_error option \<Rightarrow> native_error option \<Rightarrow> jsval \<Rightarrow> sys
     \<Rightarrow> qresult promise \<times> sys" where
  "query2 sql tr e data s =
     (let (c, s1) = connect2 tr s
      in case c of
           Fulfilled _ \<Rightarrow>
             (case priv_client s1 of
                Some d \<Rightarrow>
                  query_callback2 e data (Pending, s1\<lparr> calls := calls s1 @ [QueryCall d sql] \<rparr>)
              | None \<Rightarrow> (Pending, s1))
         | _ \<Rightarrow> (Pending, s1))"

definition disconnect2 :: "sys \<Rightarrow> bool \<times> sys" where
  "disconnect2 s =
     (case priv_client s of
        None \<Rightarrow> (True, s)
      | Some d \<Rightarrow> (True, s\<lparr> priv_client := None, calls := calls s @ [EndCall d] \<rparr>))"

section \<open>Runs of the adapter\<close>

text \<open>A caller's use of the adapter, one operation after the other.\<close>

datatype op =
    Connect "native_error option"
  | Disconnect
  | Query string "native_error option" "native_error option" jsval

fun step :: "sys \<Rightarrow> op \<Rightarrow> sys" where
  "step s (Connect tr) = snd (connect tr s)"
| "step s Disconnect = snd (disconnect s)"
| "step s (Query sql tr e data) = snd (query sql tr e data s)"

definition run :: "sys \<Rightarrow> op list \<Rightarrow> sys" where
  "run s ops = foldl step s ops"

text \<open>The handle a transport call is made on or returns.\<close>

fun call_handle :: "call \<Rightarrow> handle" where
  "call_handle (CreateConnection h) = h"
| "call_handle (ConnectCall h) = h"
| "call_handle (QueryCall h sql) = h"
| "call_handle (EndCall h) = h"

text \<open>
  What holds of every adapter a caller can reach: the flag is set only while a handle is
  cached, and every handle \<^verbatim>\<open>mysql.createConnection\<close> has handed out so far (the cached
  one, and those of the transport's log) is older than the next one.
\<close>

definition older :: "nat \<Rightarrow> handle \<Rightarrow> bool" where
  "older k h = (case h of Created n \<Rightarrow> n < k | Injected n \<Rightarrow> True)"

definition inv :: "sys \<Rightarrow> bool" where
  "inv s = ((priv_connected s \<longrightarrow> priv_client s \<noteq> None) \<and>
            (case priv_client s of None \<Rightarrow> True | Some h \<Rightarrow> older (created s) h) \<and>
            (\<forall>c\<in>set (calls s). older (created s) (call_handle c)))"

text \<open>The transport's answer to a statement carries an auto-increment identifier.\<close>

fun carries_id :: "op \<Rightarrow> bool" where
  "carries_id (Query sql tr None data) = (truthy data \<and> js_get data ''insertId'' \<noteq> Undefined)"
| "carries_id other = False"

text \<open>
  The promise of the \<^verbatim>\<open>connect()\<close> an operation makes is fulfilled; \<open>never_connected\<close>:
  this happens for no operation of a run.
\<close>

fun connect_fulfilled :: "sys \<Rightarrow> op \<Rightarrow> bool" where
  "connect_fulfilled s (Connect tr) = (case fst (connect tr s) of Fulfilled c \<Rightarrow> True | _ \<Rightarrow> False)"
| "connect_fulfilled s (Query sql tr e data) = (case fst (connect tr s) of Fulfilled c \<Rightarrow> True | _ \<Rightarrow> False)"
| "connect_fulfilled s Disconnect = False"

fun never_connected :: "sys \<Rightarrow> op list \<Rightarrow> bool" where
  "never_connected s [] = True"
| "never_connected s (x # xs) = (\<not> connect_fulfilled s x \<and> never_connected (step s x) xs)"

section \<open>Column types\<close>

text \<open>The regular expression's character classes: \<^verbatim>\<open>\w\<close> is \<^verbatim>\<open>[A-Za-z0-9_]\<close>, \<^verbatim>\<open>\d\<close> is
  \<^verbatim>\<open>[0-9]\<close>, and \<^verbatim>\<open>[\d,]\<close> adds the comma.\<close>

definition between :: "char \<Rightarrow> char \<Rightarrow> char \<Rightarrow> bool" where
  "between lo hi c = ((of_char lo :: nat) \<le> of_char c \<and> (of_char c :: nat) \<le> of_char hi)"

definition is_digit :: "char \<Rightarrow> bool" where
  "is_digit c = between CHR ''0'' CHR ''9'' c"

definition is_word :: "char \<Rightarrow> bool" where
  "is_word c = (between CHR ''a'' CHR ''z'' c \<or> between CHR ''A'' CHR ''Z'' c
                 \<or> is_digit c \<or> c = CHR ''_'')"

definition is_digit_or_comma :: "char \<Rightarrow> bool" where
  "is_digit_or_comma c = (is_digit c \<or> c = CHR '','')"

text \<open>
  The optional group \<^verbatim>\<open>(?:\(([\d,]+)\))?\<close> at the text that follows the name: an opening
  parenthesis, the longest run of digits and commas (at least one), and a closing
  parenthesis give the run; anything else leaves the group unmatched (\<^verbatim>\<open>undefined\<close>).
  The run is greedy and a closing parenthesis is not in its class, so no shorter run can
  be followed by one.
\<close>

definition paren_group :: "string \<Rightarrow> string option" where
  "paren_group rest =
     (case rest of
        [] \<Rightarrow> None
      | c # t \<Rightarrow>
          if c = CHR ''(''
          then (let g = takeWhile is_digit_or_comma t
                in case dropWhile is_digit_or_comma t of
                     [] \<Rightarrow> None
                   | d # u \<Rightarrow> if g \<noteq> [] \<and> d = CHR '')'' then Some g else None)
          else None)"

text \<open>
  \<^verbatim>\<open>text.match(/(\w+)(?:\(([\d,]+)\))?/)\<close>: the match starts at the first word character
  (the expression is not anchored), group 1 is the longest run of word characters from
  there (the rest of the expression can match the empty string, so the greedy run is
  never shortened), group 2 is the optional group. \<open>None\<close> is \<^verbatim>\<open>null\<close>: the text has no
  word character.
\<close>

definition type_match :: "string \<Rightarrow> (string \<times> string option) option" where
  "type_match text =
     (case dropWhile (\<lambda>c. \<not> is_word c) text of
        [] \<Rightarrow> None
      | c # t \<Rightarrow> Some (takeWhile is_word (c # t), paren_group (dropWhile is_word (c # t))))"

text \<open>\<^verbatim>\<open>s.split(',')\<close>: the pieces between commas; the empty string gives one empty piece.\<close>

fun split_comma :: "string \<Rightarrow> string list" where
  "split_comma [] = [[]]"
| "split_comma (c # cs) =
     (if c = CHR '','' then [] # split_comma cs
      else (case split_comma cs of [] \<Rightarrow> [[c]] | p # ps \<Rightarrow> (c # p) # ps))"

text \<open>
  \<^verbatim>\<open>Number.parseInt\<close> on a string of decimal digits, the only strings that reach it (the
  pieces of a match of \<^verbatim>\<open>[\d,]+\<close> split at its commas): \<^verbatim>\<open>NaN\<close> for the empty string,
  the number the digits write otherwise.
\<close>

definition digit_value :: "char \<Rightarrow> int" where
  "digit_value c = of_char c - of_char CHR ''0''"

definition digits_value :: "string \<Rightarrow> int" where
  "digits_value ds = foldl (\<lambda>n c. 10 * n + digit_value c) 0 ds"

definition parseInt :: "string \<Rightarrow> jsval" where
  "parseInt ds =
     (if ds = [] then NaN
      else if digits_value ds \<le> 2 ^ 53 then Num (digits_value ds)
      else Rounded (digits_value ds))"

text \<open>
  The object \<^verbatim>\<open>_field\<close> builds: \<^verbatim>\<open>type\<close>, \<^verbatim>\<open>length\<close>, \<^verbatim>\<open>use\<close>, and \<^verbatim>\<open>precision\<close> when it
  is assigned.
\<close>

record field =
  f_type :: jsval
  f_length :: jsval
  f_use :: string
  f_precision :: "jsval option"

text \<open>
  The part of \<^verbatim>\<open>_field\<close> (\<^verbatim>\<open>_column\<close> in the second copy) between the match and the
  dialect's mapping:
  \<^verbatim>\<open>field.type = matches[1]; field.length = matches[2]; field.use = field.type;
  if (field.length) { var length = field.length.split(',');
    field.length = Number.parseInt(length[0]);
    if (length[1]) { field.precision = Number.parseInt(length[1]); } }\<close>
\<close>

definition parsed_field :: "string \<times> string option \<Rightarrow> field" where
  "parsed_field matches =
     (case snd matches of
        None \<Rightarrow> \<lparr> f_type = Str (fst matches), f_length = Undefined, f_use = fst matches,
                  f_precision = None \<rparr>
      | Some g \<Rightarrow>
          if g = []
          then \<lparr> f_type = Str (fst matches), f_length = Str g, f_use = fst matches,
                 f_precision = None \<rparr>
          else (case split_comma g of
                  [] \<Rightarrow> \<lparr> f_type = Str (fst matches), f_length = NaN, f_use = fst matches,
                           f_precision = None \<rparr>
                | [l0] \<Rightarrow> \<lparr> f_type = Str (fst matches), f_length = parseInt l0,
                             f_use = fst matches, f_precision = None \<rparr>
                | l0 # l1 # ls \<Rightarrow>
                    \<lparr> f_type = Str (fst matches), f_length = parseInt l0, f_use = fst matches,
                      f_precision = (if l1 \<noteq> [] then Some (parseInt l1) else None) \<rparr>))"

text \<open>
  \<^verbatim>\<open>_field(column)\<close>, with the dialect's \<^verbatim>\<open>mapped\<close> as a parameter. \<^verbatim>\<open>column.Type\<close> must
  be a string for \<^verbatim>\<open>.match\<close> to exist, and \<^verbatim>\<open>matches[1]\<close> on a \<^verbatim>\<open>null\<close> match throws.
  The second copy's \<^verbatim>\<open>_column(column.Type)\<close> is the same function.
\<close>

definition priv_field :: "(field \<Rightarrow> jsval) \<Rightarrow> jsval \<Rightarrow> err + field" where
  "priv_field mapped column =
     (case js_get column ''Type'' of
        Str text \<Rightarrow>
          (case type_match text of
             None \<Rightarrow> Inl TypeError
           | Some matches \<Rightarrow>
               (let field = parsed_field matches in Inr (field\<lparr> f_type := mapped field \<rparr>)))
      | _ \<Rightarrow> Inl TypeError)"

section \<open>Field introspection\<close>

text \<open>
  One entry of the list \<^verbatim>\<open>fields\<close> returns: \<^verbatim>\<open>extend({}, { null: ..., 'default': dflt },
  field)\<close> under the key \<^verbatim>\<open>column.Field\<close>.
\<close>

record descriptor =
  d_null :: bool
  d_default :: jsval
  d_type :: jsval
  d_length :: jsval
  d_use :: string
  d_precision :: "jsval option"

text \<open>
  The \<^verbatim>\<open>switch (field.type)\<close> of the first copy:
  \<^verbatim>\<open>case 'boolean': dflt = dflt === '1'; break;
  case 'datetime': dflt = dflt !== 'CURRENT_TIMESTAMP' ? dflt : null; break;\<close>
\<close>

definition switch_default :: "jsval \<Rightarrow> jsval \<Rightarrow> jsval" where
  "switch_default ty dflt =
     (if ty = Str ''boolean'' then Bool (dflt = Str ''1'')
      else if ty = Str ''datetime''
      then (if dflt \<noteq> Str ''CURRENT_TIMESTAMP'' then dflt else Null)
      else dflt)"

text \<open>
  The \<^verbatim>\<open>switch (field.type)\<close> of the second copy:
  \<^verbatim>\<open>case 'boolean': if (dft === '1') { dft = true; } if (dft === '0') { dft = false; } break;
  case 'datetime': dft = dft !== 'CURRENT_TIMESTAMP' ? dft : null; break;\<close>
\<close>

definition switch_default2 :: "jsval \<Rightarrow> jsval \<Rightarrow> jsval" where
  "switch_default2 ty dft =
     (if ty = Str ''boolean''
      then (let dft1 = (if dft = Str ''1'' then Bool True else dft)
            in if dft1 = Str ''0'' then Bool False else dft1)
      else if ty = Str ''datetime''
      then (if dft \<noteq> Str ''CURRENT_TIMESTAMP'' then dft else Null)
      else dft)"

text \<open>The body of \<^verbatim>\<open>for (var column of columns)\<close>, with the switch as a parameter.\<close>

definition field_entry ::
  "(jsval \<Rightarrow> jsval \<Rightarrow> jsval) \<Rightarrow> jsval \<Rightarrow> field \<Rightarrow> jsval \<times> descriptor" where
  "field_entry switch column field =
     (js_get column ''Field'',
      \<lparr> d_null = (js_get column ''Null'' = Str ''YES''),
        d_default = switch (f_type field) (js_get column ''Default''),
        d_type = f_type field,
        d_length = f_length field,
        d_use = f_use field,
        d_precision = f_precision field \<rparr>)"

text \<open>
  The loop, \<open>acc\<close> being the list \<^verbatim>\<open>fields\<close> built so far: the first column whose type
  cannot be parsed throws, and nothing is returned.
\<close>

fun fields_loop ::
  "(jsval \<Rightarrow> jsval \<Rightarrow> jsval) \<Rightarrow> (field \<Rightarrow> jsval) \<Rightarrow> jsval list
     \<Rightarrow> (jsval \<times> descriptor) list \<Rightarrow> err + (jsval \<times> descriptor) list" where
  "fields_loop switch mapped [] acc = Inr acc"
| "fields_loop switch mapped (column # columns) acc =
     (case priv_field mapped column of
        Inl e \<Rightarrow> Inl e
      | Inr field \<Rightarrow>
          fields_loop switch mapped columns (acc @ [field_entry switch column field]))"

text \<open>
  What \<^verbatim>\<open>co\<close> makes of the generator once \<^verbatim>\<open>yield this.query(...)\<close> has an outcome:
  a pending or rejected query leaves the result pending or rejected; \<^verbatim>\<open>true\<close> is not
  iterable, and of the falsy data the second copy resolves with only the empty string is
  (it has no elements); a cursor is iterated. The cursor class is not part of this
  repository: \<open>rows\<close> is what iterating \<^verbatim>\<open>new cursor({ data: data })\<close> yields. The key of
  an entry is kept as the value of \<^verbatim>\<open>column.Field\<close>.
\<close>

definition fields_of ::
  "(jsval \<Rightarrow> jsval \<Rightarrow> jsval) \<Rightarrow> (field \<Rightarrow> jsval) \<Rightarrow> (jsval \<Rightarrow> jsval list)
     \<Rightarrow> qresult promise \<Rightarrow> (jsval \<times> descriptor) list promise" where
  "fields_of switch mapped rows q =
     (case q of
        Pending \<Rightarrow> Pending
      | Rejected e \<Rightarrow> Rejected e
      | Fulfilled (Cursor data) \<Rightarrow>
          (case fields_loop switch mapped (rows data) [] of
             Inl e \<Rightarrow> Rejected e
           | Inr fs \<Rightarrow> Fulfilled fs)
      | Fulfilled (Raw d) \<Rightarrow> (if d = Str [] then Fulfilled [] else Rejected TypeError)
      | Fulfilled AckTrue \<Rightarrow> Rejected TypeError)"

text \<open>\<^verbatim>\<open>fields(name)\<close> of the first copy (\<open>fields1\<close>) and of the second (\<open>fields2\<close>).\<close>

definition fields1 ::
  "(field \<Rightarrow> jsval) \<Rightarrow> (jsval \<Rightarrow> jsval list) \<Rightarrow> string \<Rightarrow> native_error option
     \<Rightarrow> native_error option \<Rightarrow> jsval \<Rightarrow> sys \<Rightarrow> (jsval \<times> descriptor) list promise \<times> sys" where
  "fields1 mapped rows name tr e data s =
     (let (q, s1) = query (''DESCRIBE '' @ name) tr e data s
      in (fields_of switch_default mapped rows q, s1))"

definition fields2 ::
  "(field \<Rightarrow> jsval) \<Rightarrow> (jsval \<Rightarrow> jsval list) \<Rightarrow> string \<Rightarrow> native_error option
     \<Rightarrow> native_error option \<Rightarrow> jsval \<Rightarrow> sys \<Rightarrow> (jsval \<times> descriptor) list promise \<times> sys" where
  "fields2 mapped rows name tr e data s =
     (let (q, s1) = query2 (''DESCRIBE '' @ name) tr e data s
      in (fields_of switch_default2 mapped rows q, s1))"

section \<open>Type conversion\<close>

text \<open>
  Modelled from the spec: the direction of a conversion (4.3), \<^verbatim>\<open>toStorage\<close> or
  \<^verbatim>\<open>fromStorage\<close>; the base class that defines it is not among the source files.
\<close>

datatype direction = ToStorage | FromStorage

text \<open>
  Modelled from the spec: the conversion table of the data model (3), two mappings keyed
  by the logical type's name, each with the fallback entry used when the type is absent;
  the tables themselves are not among the source files.
\<close>

record conversion_table =
  to_storage :: "string \<Rightarrow> (jsval \<Rightarrow> jsval) option"
  to_storage_fallback :: "jsval \<Rightarrow> jsval"
  from_storage :: "string \<Rightarrow> (jsval \<Rightarrow> jsval) option"
  from_storage_fallback :: "jsval \<Rightarrow> jsval"

text \<open>
  Modelled from the spec: \<^verbatim>\<open>convert\<close> is a method of the base class \<^verbatim>\<open>Database\<close>, which
  the adapter extends and whose code is not among the source files. The spec (4.3):
  if the value is null and the direction is toStorage, it always yields the storage NULL
  literal, independent of the logical type; otherwise it looks up a converter for the
  logical type in the relevant table and, if absent, falls back to the generic converter.
\<close>

definition convert :: "conversion_table \<Rightarrow> direction \<Rightarrow> string \<Rightarrow> jsval \<Rightarrow> jsval" where
  "convert tbl dir logicalType v =
     (if v = Null \<and> dir = ToStorage then Str ''NULL''
      else (case dir of
              ToStorage \<Rightarrow>
                (case to_storage tbl logicalType of
                   Some f \<Rightarrow> f v
                 | None \<Rightarrow> to_storage_fallback tbl v)
            | FromStorage \<Rightarrow>
                (case from_storage tbl logicalType of
                   Some f \<Rightarrow> f v
                 | None \<Rightarrow> from_storage_fallback tbl v)))"

section \<open>Example inputs\<close>

text \<open>
  The configuration of the test suite (a database name, no injected handle), one with an
  injected handle, and the empty configuration of \<^verbatim>\<open>new MySql()\<close>; the error of a
  connection to an unknown host.
\<close>

definition cfg0 :: config where
  "cfg0 = \<lparr> cfg_database = Some ''chaos_test'', cfg_client = None \<rparr>"

definition cfg_injected :: config where
  "cfg_injected = \<lparr> cfg_database = Some ''chaos_test'', cfg_client = Some 0 \<rparr>"

definition cfg_empty :: config where
  "cfg_empty = \<lparr> cfg_database = None, cfg_client = None \<rparr>"

definition enotfound :: native_error where
  "enotfound = NativeError ''ENOTFOUND'' ''Error: getaddrinfo ENOTFOUND hostlocal''
                 ''getaddrinfo ENOTFOUND hostlocal''"

text \<open>
  A cursor over an array iterates its elements; a mapping in the manner of the MySQL
  dialect (\<^verbatim>\<open>tinyint(1)\<close> is a boolean, \<^verbatim>\<open>timestamp\<close> a datetime); a row of
  \<^verbatim>\<open>DESCRIBE\<close>; the rows of a table with boolean and datetime columns, and the
  descriptors the two copies of \<^verbatim>\<open>fields\<close> return for them; the transport's answer to
  an \<^verbatim>\<open>INSERT\<close>.
\<close>

definition rows_of_array :: "jsval \<Rightarrow> jsval list" where
  "rows_of_array data = (case data of Arr xs \<Rightarrow> xs | _ \<Rightarrow> [])"

definition mapped_example :: "field \<Rightarrow> jsval" where
  "mapped_example f =
     (if f_use f = ''tinyint'' \<and> f_length f = Num 1 then Str ''boolean''
      else if f_use f = ''timestamp'' then Str ''datetime''
      else Str (f_use f))"

definition column_row :: "string \<Rightarrow> string \<Rightarrow> string \<Rightarrow> jsval \<Rightarrow> jsval" where
  "column_row name ty nullable dflt =
     Obj [(''Field'', Str name), (''Type'', Str ty), (''Null'', Str nullable), (''Default'', dflt)]"

definition describe_gallery :: jsval where
  "describe_gallery =
     Arr [column_row ''active'' ''tinyint(1)'' ''YES'' (Str ''1''),
          column_row ''inactive'' ''tinyint(1)'' ''YES'' (Str ''0''),
          column_row ''flag'' ''tinyint(1)'' ''YES'' Null,
          column_row ''created'' ''timestamp'' ''NO'' (Str ''CURRENT_TIMESTAMP''),
          column_row ''updated'' ''timestamp'' ''YES'' (Str ''2014-11-21 10:20:45'')]"

definition gallery_fields1 :: "(jsval \<times> descriptor) list" where
  "gallery_fields1 =
     [(Str ''active'', \<lparr> d_null = True, d_default = Bool True,
          d_type = Str ''boolean'', d_length = Num 1, d_use = ''tinyint'', d_precision = None \<rparr>),
      (Str ''inactive'', \<lparr> d_null = True, d_default = Bool False,
          d_type = Str ''boolean'', d_length = Num 1, d_use = ''tinyint'', d_precision = None \<rparr>),
      (Str ''flag'', \<lparr> d_null = True, d_default = Bool False,
          d_type = Str ''boolean'', d_length = Num 1, d_use = ''tinyint'', d_precision = None \<rparr>),
      (Str ''created'', \<lparr> d_null = False, d_default = Null,
          d_type = Str ''datetime'', d_length = Undefined, d_use = ''timestamp'', d_precision = None \<rparr>),
      (Str ''updated'', \<lparr> d_null = True, d_default = Str ''2014-11-21 10:20:45'',
          d_type = Str ''datetime'', d_length = Undefined, d_use = ''timestamp'', d_precision = None \<rparr>)]"

definition gallery_fields2 :: "(jsval \<times> descriptor) list" where
  "gallery_fields2 =
     [(Str ''active'', \<lparr> d_null = True, d_default = Bool True,
          d_type = Str ''boolean'', d_length = Num 1, d_use = ''tinyint'', d_precision = None \<rparr>),
      (Str ''inactive'', \<lparr> d_null = True, d_default = Bool False,
          d_type = Str ''boolean'', d_length = Num 1, d_use = ''tinyint'', d_precision = None \<rparr>),
      (Str ''flag'', \<lparr> d_null = True, d_default = Null,
          d_type = Str ''boolean'', d_length = Num 1, d_use = ''tinyint'', d_precision = None \<rparr>),
      (Str ''created'', \<lparr> d_null = False, d_default = Null,
          d_type = Str ''datetime'', d_length = Undefined, d_use = ''timestamp'', d_precision = None \<rparr>),
      (Str ''updated'', \<lparr> d_null = True, d_default = Str ''2014-11-21 10:20:45'',
          d_type = Str ''datetime'', d_length = Undefined, d_use = ''timestamp'', d_precision = None \<rparr>)]"

definition insert_ok :: "int \<Rightarrow> jsval" where
  "insert_ok n = Obj [(''affectedRows'', Num 1), (''insertId'', Num n)]"

section \<open>Properties of the connection\<close>

lemma older_mono: "older k h \<Longrightarrow> older (Suc k) h"
  by (cases h) (simp_all add: older_def)

lemma older_fresh: "older k h \<Longrightarrow> h \<noteq> Created k"
  by (cases h) (auto simp: older_def)

lemma older_new: "older (Suc k) (Created k)"
  by (simp add: older_def)

lemma inv_constructor: "inv (constructor cfg)"
  by (cases "cfg_client cfg") (simp_all add: inv_def constructor_def older_def)

lemma inv_connect:
  assumes "inv s"
  shows "inv (snd (connect tr s))"
proof (cases "priv_client s = None \<and> \<not> no_database s")
  case False
  then have "snd (connect tr s) = s"
    by (auto simp: connect_def split: option.splits)
  with assms show ?thesis by simp
next
  case True
  then have c: "priv_client (snd (connect tr s)) = Some (Created (created s))"
    "created (snd (connect tr s)) = Suc (created s)"
    "calls (snd (connect tr s)) =
       calls s @ [CreateConnection (Created (created s)), ConnectCall (Created (created s))]"
    by (auto simp: connect_def createConnection_def connect_callback_def Let_def
        split: option.splits)
  show ?thesis
    unfolding inv_def c
    using assms by (auto simp: inv_def older_mono older_new)
qed

lemma inv_disconnect: "inv s \<Longrightarrow> inv (snd (disconnect s))"
  by (auto simp: inv_def disconnect_def split: option.splits)

lemma query_frame:
  "priv_client (snd (query sql tr e d s)) = priv_client (snd (connect tr s))"
  "priv_connected (snd (query sql tr e d s)) = priv_connected (snd (connect tr s))"
  "created (snd (query sql tr e d s)) = created (snd (connect tr s))"
  "database (snd (query sql tr e d s)) = database (snd (connect tr s))"
  by (auto simp: query_def query_callback_def split: prod.splits promise.splits option.splits)

lemma query_calls:
  "set (calls (snd (query sql tr e d s))) \<subseteq>
     set (calls (snd (connect tr s))) \<union> (case priv_client (snd (connect tr s)) of None \<Rightarrow> {} | Some c \<Rightarrow> {QueryCall c sql})"
  by (auto simp: query_def query_callback_def split: prod.splits promise.splits option.splits)

lemma inv_query:
  assumes "inv s"
  shows "inv (snd (query sql tr e d s))"
proof -
  have i: "inv (snd (connect tr s))" using assms by (rule inv_connect)
  show ?thesis
    unfolding inv_def query_frame
  proof (intro conjI ballI)
    show "priv_connected (snd (connect tr s)) \<longrightarrow> priv_client (snd (connect tr s)) \<noteq> None"
      using i by (simp add: inv_def)
    show "case priv_client (snd (connect tr s)) of None \<Rightarrow> True
          | Some h \<Rightarrow> older (created (snd (connect tr s))) h"
      using i by (simp add: inv_def)
    fix c assume "c \<in> set (calls (snd (query sql tr e d s)))"
    with query_calls[of sql tr e d s]
    consider "c \<in> set (calls (snd (connect tr s)))"
      | h where "priv_client (snd (connect tr s)) = Some h" "c = QueryCall h sql"
      by (auto split: option.splits)
    then show "older (created (snd (connect tr s))) (call_handle c)"
    proof cases
      case 1
      then show ?thesis using i unfolding inv_def by blast
    next
      case 2
      then show ?thesis using i by (simp add: inv_def)
    qed
  qed
qed

lemma inv_step: "inv s \<Longrightarrow> inv (step s x)"
  by (cases x) (simp_all add: inv_connect inv_disconnect inv_query)

lemma inv_run: "inv s \<Longrightarrow> inv (run s ops)"
  unfolding run_def by (induction ops arbitrary: s) (simp_all add: inv_step)

lemma inv_reachable: "inv (run (constructor cfg) ops)"
  by (simp add: inv_run inv_constructor)

text \<open>
  C1. \<^verbatim>\<open>connect()\<close> is idempotent. On every adapter a caller can reach that has a handle
  cached, \<^verbatim>\<open>connect()\<close> resolves with that handle whatever the transport would answer,
  and leaves the adapter and the transport's call log as they are. After
  \<^verbatim>\<open>disconnect()\<close>, when a database name is configured and the transport accepts the
  connection, the next \<^verbatim>\<open>connect()\<close> calls \<^verbatim>\<open>createConnection\<close> once and resolves with
  its handle, which differs from the old one and from every handle the transport has
  seen before.
\<close>

theorem connect_idempotent:
  assumes "s = run (constructor cfg) ops" and "priv_client s = Some h"
  shows "connect tr s = (Fulfilled h, s) \<and>
         Created (created s) \<noteq> h \<and>
         Created (created s) \<notin> call_handle ` set (calls s) \<and>
         (\<not> no_database s \<longrightarrow>
            connect None (snd (disconnect s)) =
              (Fulfilled (Created (created s)),
               s\<lparr> priv_client := Some (Created (created s)),
                  priv_connected := True,
                  created := Suc (created s),
                  calls := calls s @ [EndCall h, CreateConnection (Created (created s)),
                                      ConnectCall (Created (created s))] \<rparr>))"
proof -
  have i: "inv s" using assms(1) by (simp add: inv_reachable)
  have 1: "connect tr s = (Fulfilled h, s)"
    using assms(2) by (simp add: connect_def)
  have 2: "Created (created s) \<noteq> h"
    using i assms(2) older_fresh[of "created s" h] by (auto simp: inv_def)
  have 3: "Created (created s) \<notin> call_handle ` set (calls s)"
  proof
    assume "Created (created s) \<in> call_handle ` set (calls s)"
    then obtain c where "c \<in> set (calls s)" "call_handle c = Created (created s)"
      by force
    with i have "older (created s) (Created (created s))" unfolding inv_def by metis
    then show False by (simp add: older_def)
  qed
  have 4: "connect None (snd (disconnect s)) =
              (Fulfilled (Created (created s)),
               s\<lparr> priv_client := Some (Created (created s)),
                  priv_connected := True,
                  created := Suc (created s),
                  calls := calls s @ [EndCall h, CreateConnection (Created (created s)),
                                      ConnectCall (Created (created s))] \<rparr>)"
    if "\<not> no_database s"
    using that assms(2)
    by (simp add: connect_def disconnect_def no_database_def createConnection_def
        connect_callback_def Let_def)
  from 1 2 3 4 show ?thesis by blast
qed

lemma run0: "run (constructor cfg0) [Connect None] =
   \<lparr> database = Some ''chaos_test'', priv_client = Some (Created 0), priv_connected = True,
     priv_lastInsertId = Undefined, created = Suc 0, calls = [CreateConnection (Created 0), ConnectCall (Created 0)] \<rparr>"
  by (simp add: run_def cfg0_def constructor_def connect_def no_database_def createConnection_def
        connect_callback_def Let_def)

theorem connect_idempotent_witness:
  "connect (Some (NativeError ''E'' ''st'' ''m'')) (run (constructor cfg0) [Connect None])
     = (Fulfilled (Created 0), run (constructor cfg0) [Connect None]) \<and>
   fst (connect None (snd (disconnect (run (constructor cfg0) [Connect None])))) = Fulfilled (Created 1)"
  using connect_idempotent [of "run (constructor cfg0) [Connect None]" cfg0 "[Connect None]" "Created 0"
       "Some (NativeError ''E'' ''st'' ''m'')"]
  by (simp add: run0 no_database_def)

lemma connect_not_fulfilled:
  "\<not> priv_connected s \<Longrightarrow> (\<forall>c. fst (connect tr s) \<noteq> Fulfilled c)
     \<Longrightarrow> \<not> priv_connected (snd (connect tr s))"
  by (auto simp: connect_def createConnection_def connect_callback_def Let_def
      split: option.splits if_splits)

lemma step_not_fulfilled:
  assumes "\<not> priv_connected s" and "\<not> connect_fulfilled s x"
  shows "\<not> priv_connected (step s x)"
proof (cases x)
  case (Connect tr)
  with assms(2) have "\<forall>c. fst (connect tr s) \<noteq> Fulfilled c" by (auto split: promise.splits)
  with assms(1) Connect show ?thesis by (simp add: connect_not_fulfilled)
next
  case Disconnect
  then show ?thesis by (simp add: disconnect_def assms(1) split: option.splits)
next
  case (Query sql tr e data)
  with assms(2) have "\<forall>c. fst (connect tr s) \<noteq> Fulfilled c" by (auto split: promise.splits)
  with assms(1) Query show ?thesis by (simp add: connect_not_fulfilled query_frame)
qed

lemma run_never_connected:
  "\<not> priv_connected s \<Longrightarrow> never_connected s ops \<Longrightarrow> \<not> priv_connected (run s ops)"
  unfolding run_def by (induction ops arbitrary: s) (simp_all add: step_not_fulfilled)

text \<open>
  C9, as the code has it. Right after construction \<^verbatim>\<open>connected()\<close> returns \<^verbatim>\<open>false\<close>,
  whether or not a handle was injected; it stays \<^verbatim>\<open>false\<close> over every run in which no
  \<^verbatim>\<open>connect()\<close> is fulfilled; and a \<^verbatim>\<open>connect()\<close> that opens a connection (no handle
  cached, a database name configured) and is accepted by the transport makes it \<^verbatim>\<open>true\<close>.
\<close>

theorem connected_false_until_connect:
  "connected (constructor cfg) = False \<and>
   (never_connected (constructor cfg) ops \<longrightarrow> connected (run (constructor cfg) ops) = False) \<and>
   (priv_client s = None \<and> \<not> no_database s \<longrightarrow> connected (snd (connect None s)) = True)"
proof (intro conjI impI)
  show c: "connected (constructor cfg) = False"
    by (simp add: connected_def constructor_def)
  show "connected (run (constructor cfg) ops) = False" if "never_connected (constructor cfg) ops"
    using run_never_connected[OF _ that] c by (simp add: connected_def)
  show "connected (snd (connect None s)) = True" if "priv_client s = None \<and> \<not> no_database s"
    using that
    by (simp add: connected_def connect_def createConnection_def connect_callback_def Let_def)
qed

theorem connected_false_until_connect_witness:
  "never_connected (constructor cfg0) [Connect (Some enotfound), Disconnect] \<and>
   connected (run (constructor cfg0) [Connect (Some enotfound), Disconnect]) = False \<and>
   connected (snd (connect None (constructor cfg0))) = True"
  using connected_false_until_connect [of cfg0 "[Connect (Some enotfound), Disconnect]" "constructor cfg0"]
  by (simp add: cfg0_def constructor_def connect_def no_database_def createConnection_def
        connect_callback_def disconnect_def Let_def)

text \<open>
  The claim as stated fails: an adapter constructed with an injected handle reports
  \<^verbatim>\<open>connected() = false\<close>, since the constructor sets \<^verbatim>\<open>_connected = false\<close> whatever
  \<^verbatim>\<open>config.client\<close> is.
\<close>

theorem injected_not_connected_counterexample:
  "cfg_client cfg_injected = Some 0 \<and> client (constructor cfg_injected) = Some (Injected 0) \<and>
   \<not> connected (constructor cfg_injected)"
  by (simp add: cfg_injected_def constructor_def connected_def client_def)

lemma connect_failure:
  assumes "priv_client s = None" and "\<not> no_database s"
  shows "connect (Some ne) s =
           (Rejected (Error (''Unable to connect to host , error '' @ err_code ne @ '' '' @ err_stack ne)),
            s\<lparr> priv_client := Some (Created (created s)),
               created := Suc (created s),
               calls := calls s @ [CreateConnection (Created (created s)),
                                   ConnectCall (Created (created s))] \<rparr>)"
  using assms by (simp add: connect_def createConnection_def connect_callback_def Let_def)

lemma connect_cached: "priv_client s = Some c \<Longrightarrow> connect tr s = (Fulfilled c, s)"
  by (simp add: connect_def)

text \<open>
  C4, at a failing connection attempt (the unknown host of the test
  \<^verbatim>\<open>"fails when it can't connect"\<close>): \<^verbatim>\<open>connect()\<close> rejects with a message that embeds
  the native error code and stack, and \<^verbatim>\<open>connected()\<close> stays \<^verbatim>\<open>false\<close>; but the handle
  made for the attempt stays in \<^verbatim>\<open>_client\<close>, and the next \<^verbatim>\<open>connect()\<close> resolves with
  that handle without contacting the transport.
\<close>

theorem connect_failure_keeps_handle:
  "fst (connect (Some enotfound) (constructor cfg0)) =
     Rejected (Error ''Unable to connect to host , error ENOTFOUND Error: getaddrinfo ENOTFOUND hostlocal'') \<and>
   connected (snd (connect (Some enotfound) (constructor cfg0))) = False \<and>
   client (snd (connect (Some enotfound) (constructor cfg0))) = Some (Created 0) \<and>
   connect None (snd (connect (Some enotfound) (constructor cfg0))) =
     (Fulfilled (Created 0), snd (connect (Some enotfound) (constructor cfg0)))"
proof -
  have c: "priv_client (constructor cfg0) = None" "\<not> no_database (constructor cfg0)"
    by (simp_all add: cfg0_def constructor_def no_database_def)
  show ?thesis
    unfolding connect_failure[OF c]
    by (simp add: connect_cached connected_def client_def enotfound_def constructor_def)
qed

lemma run_insert:
  "lastInsertId (run (constructor cfg0) [Query sql None None (insert_ok n)]) = Num n"
  by (simp add: run_def lastInsertId_def query_def query_callback_def connect_def constructor_def
      cfg0_def no_database_def createConnection_def connect_callback_def Let_def insert_ok_def)

text \<open>
  C10. \<^verbatim>\<open>disconnect()\<close> returns \<^verbatim>\<open>true\<close> and changes nothing but the cached handle, the
  connected flag and the transport's call log (the \<^verbatim>\<open>end()\<close> it sends): putting these
  three back gives the adapter as it was. So \<^verbatim>\<open>lastInsertId()\<close> returns the same value
  after \<^verbatim>\<open>disconnect()\<close> as before it.
\<close>

theorem disconnect_frame:
  "fst (disconnect s) = True \<and>
   (snd (disconnect s))\<lparr> priv_client := priv_client s, priv_connected := priv_connected s,
                          calls := calls s \<rparr> = s \<and>
   lastInsertId (snd (disconnect s)) = lastInsertId s"
  by (simp add: disconnect_def lastInsertId_def split: option.splits)

theorem disconnect_frame_witness:
  "lastInsertId (run (constructor cfg0) [Query ''INSERT INTO gallery'' None None (insert_ok 1)]) = Num 1 \<and>
   lastInsertId (snd (disconnect (run (constructor cfg0)
      [Query ''INSERT INTO gallery'' None None (insert_ok 1)]))) = Num 1"
  using disconnect_frame [of "run (constructor cfg0) [Query ''INSERT INTO gallery'' None None (insert_ok 1)]"]
  by (simp add: run_insert)

section \<open>Properties of queries\<close>

lemma connect_client:
  "fst (connect tr s) = Fulfilled c \<Longrightarrow> priv_client (snd (connect tr s)) = Some c"
  by (auto simp: connect_def createConnection_def connect_callback_def Let_def
      split: option.splits if_splits)

lemma connect_lastInsertId: "priv_lastInsertId (snd (connect tr s)) = priv_lastInsertId s"
  by (auto simp: connect_def createConnection_def connect_callback_def Let_def
      split: option.splits if_splits)

lemma disconnect_lastInsertId: "priv_lastInsertId (snd (disconnect s)) = priv_lastInsertId s"
  by (auto simp: disconnect_def split: option.splits)

lemma query_success:
  assumes "fst (connect tr s) = Fulfilled c"
  shows "query sql tr None data s =
      (if truthy data \<and> js_get data ''insertId'' \<noteq> Undefined
       then (Fulfilled AckTrue,
             (snd (connect tr s))\<lparr> calls := calls (snd (connect tr s)) @ [QueryCall c sql],
                                    priv_lastInsertId := js_get data ''insertId'' \<rparr>)
       else if truthy data
       then (Fulfilled (Cursor data),
             (snd (connect tr s))\<lparr> calls := calls (snd (connect tr s)) @ [QueryCall c sql] \<rparr>)
       else (Fulfilled AckTrue,
             (snd (connect tr s))\<lparr> calls := calls (snd (connect tr s)) @ [QueryCall c sql] \<rparr>))"
  using assms connect_client[OF assms]
  by (cases "connect tr s") (simp add: query_def query_callback_def)

lemma step_lastInsertId:
  "\<not> carries_id x \<Longrightarrow> priv_lastInsertId (step s x) = priv_lastInsertId s"
proof (cases x)
  case (Connect tr)
  then show ?thesis by (simp add: connect_lastInsertId)
next
  case Disconnect
  then show ?thesis by (simp add: disconnect_lastInsertId)
next
  case (Query sql tr e data)
  assume n: "\<not> carries_id x"
  obtain c s1 where cs: "connect tr s = (c, s1)" by (cases "connect tr s")
  have l: "priv_lastInsertId s1 = priv_lastInsertId s"
    using connect_lastInsertId[of tr s] cs by simp
  show ?thesis
  proof (cases e)
    case None
    with n Query have "\<not> (truthy data \<and> js_get data ''insertId'' \<noteq> Undefined)" by simp
    with Query None cs l show ?thesis
      by (auto simp: query_def query_callback_def split: promise.splits option.splits)
  next
    case (Some ne)
    with Query cs l show ?thesis
      by (auto simp: query_def query_callback_def split: promise.splits option.splits)
  qed
qed

lemma run_lastInsertId:
  "\<forall>x\<in>set ops. \<not> carries_id x \<Longrightarrow> priv_lastInsertId (run s ops) = priv_lastInsertId s"
  unfolding run_def by (induction ops arbitrary: s) (simp_all add: step_lastInsertId)

text \<open>
  C2. A successful \<^verbatim>\<open>query()\<close> (the connection step is fulfilled and the transport reports
  no error) classifies the answer: when it carries an auto-increment identifier, the query
  resolves with \<^verbatim>\<open>true\<close> and \<^verbatim>\<open>lastInsertId()\<close> returns that identifier, whatever was
  recorded before; otherwise, when it carries data, the query resolves with a cursor over
  that data and the recorded identifier is unchanged; otherwise it resolves with \<^verbatim>\<open>true\<close>
  and the recorded identifier is unchanged. \<^verbatim>\<open>lastInsertId()\<close> is \<^verbatim>\<open>undefined\<close> after
  construction and stays so over every run in which no answer carries an identifier.
\<close>

theorem query_classifies:
  "(fst (connect tr s) = Fulfilled c \<longrightarrow>
      (truthy data \<and> js_get data ''insertId'' \<noteq> Undefined \<longrightarrow>
         fst (query sql tr None data s) = Fulfilled AckTrue \<and>
         lastInsertId (snd (query sql tr None data s)) = js_get data ''insertId'') \<and>
      (truthy data \<and> js_get data ''insertId'' = Undefined \<longrightarrow>
         fst (query sql tr None data s) = Fulfilled (Cursor data) \<and>
         lastInsertId (snd (query sql tr None data s)) = lastInsertId s) \<and>
      (\<not> truthy data \<longrightarrow>
         fst (query sql tr None data s) = Fulfilled AckTrue \<and>
         lastInsertId (snd (query sql tr None data s)) = lastInsertId s)) \<and>
   lastInsertId (constructor cfg) = Undefined \<and>
   ((\<forall>x\<in>set ops. \<not> carries_id x) \<longrightarrow> lastInsertId (run (constructor cfg) ops) = Undefined)"
proof (intro conjI impI)
  show "lastInsertId (constructor cfg) = Undefined"
    by (simp add: lastInsertId_def constructor_def)
  show "lastInsertId (run (constructor cfg) ops) = Undefined" if "\<forall>x\<in>set ops. \<not> carries_id x"
    using run_lastInsertId[OF that, of "constructor cfg"]
    by (simp add: lastInsertId_def constructor_def)
qed (simp_all add: query_success lastInsertId_def connect_lastInsertId)

theorem query_classifies_witness:
  "fst (connect None (constructor cfg0)) = Fulfilled (Created 0) \<and>
   fst (query ''INSERT INTO gallery'' None None (insert_ok 1) (constructor cfg0)) = Fulfilled AckTrue \<and>
   lastInsertId (snd (query ''INSERT INTO gallery'' None None (insert_ok 1) (constructor cfg0))) = Num 1 \<and>
   lastInsertId (snd (query ''INSERT INTO gallery'' None None (insert_ok 2)
       (snd (query ''INSERT INTO gallery'' None None (insert_ok 1) (constructor cfg0))))) = Num 2 \<and>
   fst (query ''SELECT 1 + 1 as sum'' None None (Arr [Obj [(''sum'', Num 2)]]) (constructor cfg0)) =
     Fulfilled (Cursor (Arr [Obj [(''sum'', Num 2)]])) \<and>
   fst (query ''SET NAMES utf8'' None None Undefined (constructor cfg0)) = Fulfilled AckTrue \<and>
   lastInsertId (run (constructor cfg0)
      [Connect None, Query ''SELECT 1 + 1 as sum'' None None (Arr [Obj [(''sum'', Num 2)]]), Disconnect])
     = Undefined"
proof -
  have c: "fst (connect None (constructor cfg0)) = Fulfilled (Created 0)"
    by (simp add: connect_def constructor_def cfg0_def no_database_def createConnection_def
        connect_callback_def Let_def)
  have c1: "fst (connect None (snd (query ''INSERT INTO gallery'' None None (insert_ok 1) (constructor cfg0))))
     = Fulfilled (Created 0)"
    by (simp add: query_def query_callback_def connect_def constructor_def cfg0_def no_database_def
        createConnection_def connect_callback_def Let_def insert_ok_def)
  have i: "truthy (insert_ok 1)" "js_get (insert_ok 1) ''insertId'' = Num 1"
    "truthy (insert_ok 2)" "js_get (insert_ok 2) ''insertId'' = Num 2"
    by (simp_all add: insert_ok_def)
  show ?thesis
    using query_classifies [of None "constructor cfg0" "Created 0" "insert_ok 1" "''INSERT INTO gallery''" cfg0
        "[Connect None, Query ''SELECT 1 + 1 as sum'' None None (Arr [Obj [(''sum'', Num 2)]]), Disconnect]"]
      query_classifies [of None "snd (query ''INSERT INTO gallery'' None None (insert_ok 1) (constructor cfg0))"
        "Created 0" "insert_ok 2" "''INSERT INTO gallery''" cfg0 "[]"]
      query_classifies [of None "constructor cfg0" "Created 0" "Arr [Obj [(''sum'', Num 2)]]"
        "''SELECT 1 + 1 as sum''" cfg0 "[]"]
      query_classifies [of None "constructor cfg0" "Created 0" Undefined "''SET NAMES utf8''" cfg0 "[]"]
      c c1 i
    by simp
qed

lemma query_connect_not_fulfilled:
  "(\<forall>c. fst (connect tr s) \<noteq> Fulfilled c) \<Longrightarrow> fst (query sql tr e data s) = Pending"
  by (cases "connect tr s") (auto simp: query_def split: promise.splits)

text \<open>
  Once the connection step is fulfilled, a statement the transport refuses rejects the
  query's promise with the transport's own error object, unmodified (both copies).
\<close>

lemma query_statement_error:
  "fst (connect tr s) = Fulfilled c \<Longrightarrow> fst (query sql tr (Some ne) data s) = Rejected (Native ne)"
  by (cases "connect tr s")
     (auto simp: query_def query_callback_def connect_def createConnection_def connect_callback_def Let_def
         split: option.splits if_splits)

lemma query2_connect_not_fulfilled:
  "(\<forall>c. fst (connect2 tr s) \<noteq> Fulfilled c) \<Longrightarrow> fst (query2 sql tr e data s) = Pending"
  by (cases "connect2 tr s") (auto simp: query2_def split: promise.splits)

lemma query2_statement_error:
  "fst (connect2 tr s) = Fulfilled c \<Longrightarrow> fst (query2 sql tr (Some ne) data s) = Rejected (Native ne)"
  by (cases "connect2 tr s")
     (auto simp: query2_def query_callback2_def connect2_def createConnection_def connect_callback2_def Let_def
         split: option.splits if_splits)

text \<open>
  C3, where the connection step fails (no database name configured, or the transport
  refuses the connection): the promise of \<^verbatim>\<open>connect()\<close> is rejected, and the promise of
  \<^verbatim>\<open>query()\<close> is never settled, in both copies of the source.
\<close>

theorem query_unsettled_on_connect_failure:
  "fst (connect None (constructor cfg_empty)) =
     Rejected (Error ''Error, no database name has been configured.'') \<and>
   fst (query ''SELECT 1'' None None (Arr []) (constructor cfg_empty)) = Pending \<and>
   fst (query ''SELECT 1'' (Some enotfound) None (Arr []) (constructor cfg0)) = Pending \<and>
   fst (query2 ''SELECT 1'' None None (Arr []) (constructor cfg_empty)) = Pending \<and>
   fst (query2 ''SELECT 1'' (Some enotfound) None (Arr []) (constructor cfg0)) = Pending"
  by (simp add: query_def query2_def connect_def connect2_def constructor_def cfg_empty_def cfg0_def
      no_database_def createConnection_def connect_callback_def connect_callback2_def Let_def)

section \<open>Properties of the column type parser\<close>

lemma digit_is_word: "is_digit c \<Longrightarrow> is_word c"
  by (simp add: is_word_def)

lemma digit_not_comma: "is_digit c \<Longrightarrow> c \<noteq> CHR '',''"
  by (auto simp: is_digit_def between_def)

lemma paren_not_word: "\<not> is_word CHR ''(''"
  by (simp add: is_word_def is_digit_def between_def)

lemma paren_not_digit_or_comma: "\<not> is_digit_or_comma CHR '')''"
  by (simp add: is_digit_or_comma_def is_digit_def between_def)

text \<open>
  What a match is: group 1 is the first run of word characters of the text, taken whole,
  and group 2 is decided by what follows it.
\<close>

lemma type_match_shape:
  assumes "type_match t = Some (g1, g2)"
  shows "\<exists>pre rest. t = pre @ g1 @ rest \<and> (\<forall>c\<in>set pre. \<not> is_word c) \<and> g1 \<noteq> [] \<and>
           (\<forall>c\<in>set g1. is_word c) \<and> (rest = [] \<or> \<not> is_word (hd rest)) \<and>
           g2 = paren_group rest"
proof -
  let ?pre = "takeWhile (\<lambda>c. \<not> is_word c) t"
  let ?r = "dropWhile (\<lambda>c. \<not> is_word c) t"
  from assms obtain c u where r: "?r = c # u"
    by (auto simp: type_match_def split: list.splits)
  with assms have g: "g1 = takeWhile is_word ?r" "g2 = paren_group (dropWhile is_word ?r)"
    by (auto simp: type_match_def)
  have w: "is_word c" using r hd_dropWhile[of "\<lambda>c. \<not> is_word c" t] by auto
  have 1: "t = ?pre @ g1 @ dropWhile is_word ?r" using g(1) by simp
  have 2: "\<forall>c\<in>set ?pre. \<not> is_word c" by (auto dest: set_takeWhileD)
  have 3: "g1 \<noteq> []" using g(1) r w by simp
  have 4: "\<forall>c\<in>set g1. is_word c" using g(1) by (auto dest: set_takeWhileD)
  have 5: "dropWhile is_word ?r = [] \<or> \<not> is_word (hd (dropWhile is_word ?r))"
    using hd_dropWhile[of is_word ?r] by blast
  from 1 2 3 4 5 g(2) show ?thesis by blast
qed

lemma type_match_name:
  assumes "base \<noteq> []" and "\<forall>c\<in>set base. is_word c" and "rest = [] \<or> \<not> is_word (hd rest)"
  shows "type_match (base @ rest) = Some (base, paren_group rest)"
proof -
  obtain b bs where b: "base = b # bs" using assms(1) by (cases base) auto
  have w: "is_word b" using assms(2) b by simp
  have t: "takeWhile is_word (base @ rest) = base"
    using assms(2,3) by (cases rest) (simp_all add: takeWhile_append2)
  have d: "dropWhile is_word (base @ rest) = rest"
    using assms(2,3) by (cases rest) (simp_all add: dropWhile_append2)
  have "dropWhile (\<lambda>c. \<not> is_word c) (base @ rest) = base @ rest"
    using w b by simp
  then show ?thesis
    using t d b by (simp add: type_match_def)
qed

lemma paren_group_absent:
  "rest = [] \<or> hd rest \<noteq> CHR ''('' \<Longrightarrow> paren_group rest = None"
  by (cases rest) (auto simp: paren_group_def)

lemma paren_group_present:
  assumes "g \<noteq> []" and "\<forall>c\<in>set g. is_digit_or_comma c"
  shows "paren_group (''('' @ g @ '')'' @ u) = Some g"
proof -
  have t: "takeWhile is_digit_or_comma (g @ CHR '')'' # u) = g"
    using assms(2) by (simp add: takeWhile_append2 paren_not_digit_or_comma)
  have d: "dropWhile is_digit_or_comma (g @ CHR '')'' # u) = CHR '')'' # u"
    using assms(2) by (simp add: dropWhile_append2 paren_not_digit_or_comma)
  show ?thesis
    using t d assms(1) by (simp add: paren_group_def)
qed

lemma split_comma_no_comma: "CHR '','' \<notin> set s \<Longrightarrow> split_comma s = [s]"
  by (induction s) auto

lemma split_comma_first:
  "CHR '','' \<notin> set n \<Longrightarrow> split_comma (n @ CHR '','' # r) = n # split_comma r"
  by (induction n) auto

text \<open>
  Only strings of digits reach \<^verbatim>\<open>Number.parseInt\<close>: group 2 is a run of digits and
  commas, and its pieces between commas are runs of digits.
\<close>

lemma paren_group_chars:
  "paren_group rest = Some g \<Longrightarrow> g \<noteq> [] \<and> (\<forall>c\<in>set g. is_digit_or_comma c)"
  by (auto simp: paren_group_def Let_def split: list.splits if_splits dest: set_takeWhileD)

lemma split_comma_digits:
  "\<forall>c\<in>set g. is_digit_or_comma c \<Longrightarrow> \<forall>p\<in>set (split_comma g). \<forall>c\<in>set p. is_digit c"
  by (induction g) (auto simp: is_digit_or_comma_def split: list.splits)

lemma parsed_field_absent:
  "parsed_field (base, None) =
     \<lparr> f_type = Str base, f_length = Undefined, f_use = base, f_precision = None \<rparr>"
  by (simp add: parsed_field_def)

lemma parsed_field_length:
  assumes "n \<noteq> []" and "\<forall>c\<in>set n. is_digit c"
  shows "parsed_field (base, Some n) =
     \<lparr> f_type = Str base, f_length = parseInt n, f_use = base, f_precision = None \<rparr>"
proof -
  have "CHR '','' \<notin> set n" using assms(2) digit_not_comma by blast
  then show ?thesis using assms(1) by (simp add: parsed_field_def split_comma_no_comma)
qed

lemma parsed_field_precision:
  assumes "\<forall>c\<in>set n. is_digit c" and "m \<noteq> []" and "\<forall>c\<in>set m. is_digit c"
  shows "parsed_field (base, Some (n @ CHR '','' # m)) =
     \<lparr> f_type = Str base, f_length = parseInt n, f_use = base, f_precision = Some (parseInt m) \<rparr>"
proof -
  have n: "CHR '','' \<notin> set n" using assms(1) digit_not_comma by blast
  have m: "CHR '','' \<notin> set m" using assms(3) digit_not_comma by blast
  have "split_comma (n @ CHR '','' # m) = [n, m]"
    using split_comma_first[OF n, of m] split_comma_no_comma[OF m] by simp
  then show ?thesis using assms(2) by (simp add: parsed_field_def)
qed

text \<open>
  C6. \<^verbatim>\<open>_field\<close> on the type \<^verbatim>\<open>decimal(10,2)\<close> gives the use type \<^verbatim>\<open>decimal\<close>, the length
  10 and the precision 2, and the logical type is whatever the dialect's \<open>mapped\<close> answers
  for that parsed field. For every name of word characters: followed by nothing, or by a
  character that is neither a word character nor an opening parenthesis, the length is
  \<^verbatim>\<open>undefined\<close> and no precision is set; followed by \<^verbatim>\<open>(n)\<close> the length is the integer
  \<open>n\<close> writes; followed by \<^verbatim>\<open>(n,m)\<close> the length is \<open>n\<close> and the precision \<open>m\<close>.
\<close>

theorem field_parses_vendor_type:
  "priv_field mapped (Obj [(''Type'', Str ''decimal(10,2)'')]) =
     Inr \<lparr> f_type = mapped \<lparr> f_type = Str ''decimal'', f_length = Num 10, f_use = ''decimal'',
                             f_precision = Some (Num 2) \<rparr>,
           f_length = Num 10, f_use = ''decimal'', f_precision = Some (Num 2) \<rparr> \<and>
   (base \<noteq> [] \<and> (\<forall>c\<in>set base. is_word c) \<longrightarrow>
      (rest = [] \<or> (\<not> is_word (hd rest) \<and> hd rest \<noteq> CHR ''('') \<longrightarrow>
         priv_field mapped (Obj [(''Type'', Str (base @ rest))]) =
           Inr \<lparr> f_type = mapped \<lparr> f_type = Str base, f_length = Undefined, f_use = base,
                                   f_precision = None \<rparr>,
                 f_length = Undefined, f_use = base, f_precision = None \<rparr>) \<and>
      (n \<noteq> [] \<and> (\<forall>c\<in>set n. is_digit c) \<longrightarrow>
         priv_field mapped (Obj [(''Type'', Str (base @ ''('' @ n @ '')'' @ rest))]) =
           Inr \<lparr> f_type = mapped \<lparr> f_type = Str base, f_length = parseInt n, f_use = base,
                                   f_precision = None \<rparr>,
                 f_length = parseInt n, f_use = base, f_precision = None \<rparr>) \<and>
      (n \<noteq> [] \<and> (\<forall>c\<in>set n. is_digit c) \<and> m \<noteq> [] \<and> (\<forall>c\<in>set m. is_digit c) \<longrightarrow>
         priv_field mapped (Obj [(''Type'', Str (base @ ''('' @ n @ '','' @ m @ '')'' @ rest))]) =
           Inr \<lparr> f_type = mapped \<lparr> f_type = Str base, f_length = parseInt n, f_use = base,
                                   f_precision = Some (parseInt m) \<rparr>,
                 f_length = parseInt n, f_use = base, f_precision = Some (parseInt m) \<rparr>))"
proof (intro conjI impI)
  show "priv_field mapped (Obj [(''Type'', Str ''decimal(10,2)'')]) =
     Inr \<lparr> f_type = mapped \<lparr> f_type = Str ''decimal'', f_length = Num 10, f_use = ''decimal'',
                             f_precision = Some (Num 2) \<rparr>,
           f_length = Num 10, f_use = ''decimal'', f_precision = Some (Num 2) \<rparr>"
    by (simp add: priv_field_def type_match_def paren_group_def is_word_def is_digit_def
        between_def is_digit_or_comma_def parsed_field_def parseInt_def digits_value_def
        digit_value_def)
next
  assume b: "base \<noteq> [] \<and> (\<forall>c\<in>set base. is_word c)"
  assume r: "rest = [] \<or> (\<not> is_word (hd rest) \<and> hd rest \<noteq> CHR ''('')"
  then have "type_match (base @ rest) = Some (base, None)"
    using type_match_name[of base rest] paren_group_absent[of rest] b by auto
  then show "priv_field mapped (Obj [(''Type'', Str (base @ rest))]) =
           Inr \<lparr> f_type = mapped \<lparr> f_type = Str base, f_length = Undefined, f_use = base,
                                   f_precision = None \<rparr>,
                 f_length = Undefined, f_use = base, f_precision = None \<rparr>"
    by (simp add: priv_field_def parsed_field_absent)
next
  assume b: "base \<noteq> [] \<and> (\<forall>c\<in>set base. is_word c)"
  assume n: "n \<noteq> [] \<and> (\<forall>c\<in>set n. is_digit c)"
  have g: "\<forall>c\<in>set n. is_digit_or_comma c" using n by (simp add: is_digit_or_comma_def)
  have "type_match (base @ (''('' @ n @ '')'' @ rest)) = Some (base, Some n)"
    using type_match_name[of base "''('' @ n @ '')'' @ rest"] b
      paren_group_present[of n rest] n g paren_not_word by simp
  then show "priv_field mapped (Obj [(''Type'', Str (base @ ''('' @ n @ '')'' @ rest))]) =
           Inr \<lparr> f_type = mapped \<lparr> f_type = Str base, f_length = parseInt n, f_use = base,
                                   f_precision = None \<rparr>,
                 f_length = parseInt n, f_use = base, f_precision = None \<rparr>"
    using n by (simp add: priv_field_def parsed_field_length)
next
  assume b: "base \<noteq> [] \<and> (\<forall>c\<in>set base. is_word c)"
  assume nm: "n \<noteq> [] \<and> (\<forall>c\<in>set n. is_digit c) \<and> m \<noteq> [] \<and> (\<forall>c\<in>set m. is_digit c)"
  have g: "\<forall>c\<in>set (n @ '','' @ m). is_digit_or_comma c"
    using nm by (auto simp: is_digit_or_comma_def)
  have "type_match (base @ (''('' @ (n @ '','' @ m) @ '')'' @ rest)) = Some (base, Some (n @ '','' @ m))"
    using type_match_name[of base "''('' @ (n @ '','' @ m) @ '')'' @ rest"] b
      paren_group_present[of "n @ '','' @ m" rest] nm g paren_not_word by simp
  then show "priv_field mapped (Obj [(''Type'', Str (base @ ''('' @ n @ '','' @ m @ '')'' @ rest))]) =
           Inr \<lparr> f_type = mapped \<lparr> f_type = Str base, f_length = parseInt n, f_use = base,
                                   f_precision = Some (parseInt m) \<rparr>,
                 f_length = parseInt n, f_use = base, f_precision = Some (parseInt m) \<rparr>"
    using nm by (simp add: priv_field_def parsed_field_precision)
qed

theorem field_parses_vendor_type_witness:
  "priv_field (\<lambda>f. Str ''datetime'') (Obj [(''Type'', Str ''timestamp'')]) =
     Inr \<lparr> f_type = Str ''datetime'', f_length = Undefined, f_use = ''timestamp'', f_precision = None \<rparr> \<and>
   priv_field (\<lambda>f. Str ''string'') (Obj [(''Type'', Str ''varchar(128)'')]) =
     Inr \<lparr> f_type = Str ''string'', f_length = Num 128, f_use = ''varchar'', f_precision = None \<rparr> \<and>
   priv_field (\<lambda>f. Str ''decimal'') (Obj [(''Type'', Str ''numeric(8,3)'')]) =
     Inr \<lparr> f_type = Str ''decimal'', f_length = Num 8, f_use = ''numeric'', f_precision = Some (Num 3) \<rparr>"
proof -
  have w1: "\<forall>c\<in>set ''timestamp''. is_word c" "\<forall>c\<in>set ''varchar''. is_word c"
     "\<forall>c\<in>set ''numeric''. is_word c"
    by (simp_all add: is_word_def between_def is_digit_def)
  have d: "\<forall>c\<in>set ''128''. is_digit c" "\<forall>c\<in>set ''8''. is_digit c" "\<forall>c\<in>set ''3''. is_digit c"
    by (simp_all add: between_def is_digit_def)
  have p: "parseInt ''128'' = Num 128" "parseInt ''8'' = Num 8" "parseInt ''3'' = Num 3"
    by (simp_all add: parseInt_def digits_value_def digit_value_def)
  show ?thesis
    using field_parses_vendor_type [of "\<lambda>f. Str ''datetime''" "''timestamp''" "[]" "''8''" "''3''"]
      field_parses_vendor_type [of "\<lambda>f. Str ''string''" "''varchar''" "[]" "''128''" "''3''"]
      field_parses_vendor_type [of "\<lambda>f. Str ''decimal''" "''numeric''" "[]" "''8''" "''3''"]
      w1 d p
    by simp
qed

section \<open>Properties of field introspection\<close>

text \<open>
  \<^verbatim>\<open>_field\<close> returns a field for every column whose type is a string with a word
  character in it, and the loop returns a list when every column is such.
\<close>

lemma type_match_some:
  "\<exists>c\<in>set text. is_word c \<Longrightarrow> \<exists>matches. type_match text = Some matches"
proof -
  assume "\<exists>c\<in>set text. is_word c"
  then have "dropWhile (\<lambda>c. \<not> is_word c) text \<noteq> []" by (auto simp: dropWhile_eq_Nil_conv)
  then show ?thesis by (auto simp: type_match_def split: list.splits)
qed

lemma priv_field_returns:
  assumes "js_get column ''Type'' = Str text" and "\<exists>c\<in>set text. is_word c"
  shows "\<exists>field. priv_field mapped column = Inr field"
  using type_match_some[OF assms(2)] assms(1) by (auto simp: priv_field_def Let_def)

lemma fields_loop_returns:
  "\<forall>column\<in>set columns. \<exists>text. js_get column ''Type'' = Str text \<and> (\<exists>c\<in>set text. is_word c)
     \<Longrightarrow> \<exists>fs. fields_loop switch mapped columns acc = Inr fs"
proof (induction columns arbitrary: acc)
  case Nil
  then show ?case by simp
next
  case (Cons column columns)
  then obtain t where "js_get column ''Type'' = Str t" "\<exists>c\<in>set t. is_word c" by auto
  then obtain field where "priv_field mapped column = Inr field"
    using priv_field_returns by blast
  then show ?case using Cons by simp
qed

lemma fields_loop_entries:
  "fields_loop switch mapped columns acc = Inr fs \<Longrightarrow>
     length fs = length acc + length columns \<and>
     (\<forall>i<length acc. fs ! i = acc ! i) \<and>
     (\<forall>i<length columns. \<exists>field. priv_field mapped (columns ! i) = Inr field \<and>
          fs ! (length acc + i) = field_entry switch (columns ! i) field)"
proof (induction columns arbitrary: acc)
  case Nil
  then show ?case by simp
next
  case (Cons column columns)
  from Cons.prems obtain field where
    f: "priv_field mapped column = Inr field" and
    r: "fields_loop switch mapped columns (acc @ [field_entry switch column field]) = Inr fs"
    by (auto split: sum.splits)
  note ih = Cons.IH[OF r]
  have len: "length fs = length acc + length (column # columns)" using ih by simp
  have pre: "\<forall>i<length acc. fs ! i = acc ! i"
  proof (intro allI impI)
    fix i assume "i < length acc"
    then show "fs ! i = acc ! i" using ih by (auto simp: nth_append)
  qed
  have here: "fs ! length acc = field_entry switch column field"
    using ih by (auto simp: nth_append)
  have ent: "\<forall>i<length (column # columns). \<exists>field. priv_field mapped ((column # columns) ! i) = Inr field \<and>
          fs ! (length acc + i) = field_entry switch ((column # columns) ! i) field"
  proof (intro allI impI)
    fix i assume i: "i < length (column # columns)"
    show "\<exists>field. priv_field mapped ((column # columns) ! i) = Inr field \<and>
          fs ! (length acc + i) = field_entry switch ((column # columns) ! i) field"
    proof (cases i)
      case 0
      then show ?thesis using f here by simp
    next
      case (Suc j)
      then have "j < length columns" using i by simp
      then show ?thesis using ih Suc by simp
    qed
  qed
  from len pre ent show ?case by blast
qed

lemma fields_of_entries:
  assumes "fields_of switch mapped rows q = Fulfilled fs" and "fs \<noteq> []"
  shows "\<exists>data. q = Fulfilled (Cursor data) \<and> length fs = length (rows data) \<and>
           (\<forall>i<length fs. \<exists>field. priv_field mapped (rows data ! i) = Inr field \<and>
                fs ! i = field_entry switch (rows data ! i) field)"
proof -
  from assms obtain data where
    q: "q = Fulfilled (Cursor data)" and l: "fields_loop switch mapped (rows data) [] = Inr fs"
    by (auto simp: fields_of_def split: promise.splits qresult.splits sum.splits if_splits)
  from fields_loop_entries[OF l] q show ?thesis by auto
qed

lemma query_cursor_data:
  "fst (query sql tr e data s) = Fulfilled (Cursor d) \<Longrightarrow> d = data"
  by (auto simp: query_def query_callback_def split: prod.splits promise.splits option.splits if_splits)

lemma query2_cursor_data:
  "fst (query2 sql tr e data s) = Fulfilled (Cursor d) \<Longrightarrow> d = data"
  by (auto simp: query2_def query_callback2_def Let_def
      split: prod.splits promise.splits option.splits if_splits)

lemma fields1_entries:
  assumes "fst (fields1 mapped rows name tr e data s) = Fulfilled fs" and "i < length fs"
  shows "length fs = length (rows data) \<and>
         (\<exists>field. priv_field mapped (rows data ! i) = Inr field \<and>
              fs ! i = field_entry switch_default (rows data ! i) field)"
proof -
  obtain q s1 where q: "query (''DESCRIBE '' @ name) tr e data s = (q, s1)"
    by (cases "query (''DESCRIBE '' @ name) tr e data s")
  with assms(1) have "fields_of switch_default mapped rows q = Fulfilled fs"
    by (simp add: fields1_def)
  moreover have "fs \<noteq> []" using assms(2) by auto
  ultimately obtain d where
    d: "q = Fulfilled (Cursor d)" "length fs = length (rows d)"
       "\<forall>i<length fs. \<exists>field. priv_field mapped (rows d ! i) = Inr field \<and>
                fs ! i = field_entry switch_default (rows d ! i) field"
    using fields_of_entries by blast
  have "d = data" using query_cursor_data[of "''DESCRIBE '' @ name" tr e data s d] q d(1) by simp
  with d assms(2) show ?thesis by blast
qed

lemma fields2_entries:
  assumes "fst (fields2 mapped rows name tr e data s) = Fulfilled fs" and "i < length fs"
  shows "length fs = length (rows data) \<and>
         (\<exists>field. priv_field mapped (rows data ! i) = Inr field \<and>
              fs ! i = field_entry switch_default2 (rows data ! i) field)"
proof -
  obtain q s1 where q: "query2 (''DESCRIBE '' @ name) tr e data s = (q, s1)"
    by (cases "query2 (''DESCRIBE '' @ name) tr e data s")
  with assms(1) have "fields_of switch_default2 mapped rows q = Fulfilled fs"
    by (simp add: fields2_def)
  moreover have "fs \<noteq> []" using assms(2) by auto
  ultimately obtain d where
    d: "q = Fulfilled (Cursor d)" "length fs = length (rows d)"
       "\<forall>i<length fs. \<exists>field. priv_field mapped (rows d ! i) = Inr field \<and>
                fs ! i = field_entry switch_default2 (rows d ! i) field"
    using fields_of_entries by blast
  have "d = data" using query2_cursor_data[of "''DESCRIBE '' @ name" tr e data s d] q d(1) by simp
  with d assms(2) show ?thesis by blast
qed

lemma priv_field_tinyint:
  "priv_field mapped_example (column_row name ''tinyint(1)'' nl d) =
     Inr \<lparr> f_type = Str ''boolean'', f_length = Num 1, f_use = ''tinyint'', f_precision = None \<rparr>"
  by (simp add: priv_field_def column_row_def type_match_def paren_group_def is_word_def is_digit_def
        between_def is_digit_or_comma_def parsed_field_def parseInt_def digits_value_def
        digit_value_def mapped_example_def)

lemma priv_field_timestamp:
  "priv_field mapped_example (column_row name ''timestamp'' nl d) =
     Inr \<lparr> f_type = Str ''datetime'', f_length = Undefined, f_use = ''timestamp'', f_precision = None \<rparr>"
  by (simp add: priv_field_def column_row_def type_match_def paren_group_def is_word_def is_digit_def
        between_def is_digit_or_comma_def parsed_field_def mapped_example_def)

lemma query_gallery:
  "fst (query sql None None describe_gallery (constructor cfg0)) = Fulfilled (Cursor describe_gallery)"
  by (simp add: query_def query_callback_def connect_def constructor_def cfg0_def no_database_def
      createConnection_def connect_callback_def Let_def describe_gallery_def column_row_def)

lemma query2_gallery:
  "fst (query2 sql None None describe_gallery (constructor cfg0)) = Fulfilled (Cursor describe_gallery)"
  by (simp add: query2_def query_callback2_def connect2_def constructor_def cfg0_def no_database_def
      createConnection_def connect_callback2_def Let_def describe_gallery_def column_row_def)

lemma loop_gallery:
  "fields_loop switch mapped_example (rows_of_array describe_gallery) [] =
     Inr [(Str ''active'', \<lparr> d_null = True, d_default = switch (Str ''boolean'') (Str ''1''),
             d_type = Str ''boolean'', d_length = Num 1, d_use = ''tinyint'', d_precision = None \<rparr>),
          (Str ''inactive'', \<lparr> d_null = True, d_default = switch (Str ''boolean'') (Str ''0''),
             d_type = Str ''boolean'', d_length = Num 1, d_use = ''tinyint'', d_precision = None \<rparr>),
          (Str ''flag'', \<lparr> d_null = True, d_default = switch (Str ''boolean'') Null,
             d_type = Str ''boolean'', d_length = Num 1, d_use = ''tinyint'', d_precision = None \<rparr>),
          (Str ''created'', \<lparr> d_null = False, d_default = switch (Str ''datetime'') (Str ''CURRENT_TIMESTAMP''),
             d_type = Str ''datetime'', d_length = Undefined, d_use = ''timestamp'', d_precision = None \<rparr>),
          (Str ''updated'', \<lparr> d_null = True, d_default = switch (Str ''datetime'') (Str ''2014-11-21 10:20:45''),
             d_type = Str ''datetime'', d_length = Undefined, d_use = ''timestamp'', d_precision = None \<rparr>)]"
  by (simp add: describe_gallery_def rows_of_array_def priv_field_tinyint priv_field_timestamp
      field_entry_def)
     (simp add: column_row_def)

lemma fields1_gallery:
  "fst (fields1 mapped_example rows_of_array ''gallery'' None None describe_gallery (constructor cfg0)) =
     Fulfilled gallery_fields1"
proof -
  obtain q s1 where q: "query (''DESCRIBE '' @ ''gallery'') None None describe_gallery (constructor cfg0) = (q, s1)"
    by (cases "query (''DESCRIBE '' @ ''gallery'') None None describe_gallery (constructor cfg0)")
  then have "q = Fulfilled (Cursor describe_gallery)"
    using query_gallery[of "''DESCRIBE '' @ ''gallery''"] by simp
  with q show ?thesis
    by (simp add: fields1_def fields_of_def loop_gallery switch_default_def gallery_fields1_def)
qed

lemma fields2_gallery:
  "fst (fields2 mapped_example rows_of_array ''gallery'' None None describe_gallery (constructor cfg0)) =
     Fulfilled gallery_fields2"
proof -
  obtain q s1 where q: "query2 (''DESCRIBE '' @ ''gallery'') None None describe_gallery (constructor cfg0) = (q, s1)"
    by (cases "query2 (''DESCRIBE '' @ ''gallery'') None None describe_gallery (constructor cfg0)")
  then have "q = Fulfilled (Cursor describe_gallery)"
    using query2_gallery[of "''DESCRIBE '' @ ''gallery''"] by simp
  with q show ?thesis
    by (simp add: fields2_def fields_of_def loop_gallery switch_default2_def gallery_fields2_def)
qed

lemma gallery_rows:
  "js_get (rows_of_array describe_gallery ! 0) ''Default'' = Str ''1''"
  "js_get (rows_of_array describe_gallery ! Suc 0) ''Default'' = Str ''0''"
  "js_get (rows_of_array describe_gallery ! 2) ''Default'' = Null"
  "js_get (rows_of_array describe_gallery ! 3) ''Default'' = Str ''CURRENT_TIMESTAMP''"
  "js_get (rows_of_array describe_gallery ! 4) ''Default'' = Str ''2014-11-21 10:20:45''"
  by (simp_all add: describe_gallery_def rows_of_array_def column_row_def)

text \<open>
  C7. In the list \<^verbatim>\<open>fields\<close> resolves with (either copy), every entry whose logical type
  is \<^verbatim>\<open>datetime\<close> has the default \<^verbatim>\<open>null\<close> when the column's raw default is
  \<^verbatim>\<open>'CURRENT_TIMESTAMP'\<close>, and the raw default itself otherwise.
\<close>

theorem datetime_default:
  "(fst (fields1 mapped rows name tr e data s) = Fulfilled fs \<and> i < length fs \<and>
      d_type (snd (fs ! i)) = Str ''datetime'' \<longrightarrow>
        d_default (snd (fs ! i)) =
          (if js_get (rows data ! i) ''Default'' = Str ''CURRENT_TIMESTAMP'' then Null
           else js_get (rows data ! i) ''Default'')) \<and>
   (fst (fields2 mapped rows name tr e data s) = Fulfilled fs \<and> i < length fs \<and>
      d_type (snd (fs ! i)) = Str ''datetime'' \<longrightarrow>
        d_default (snd (fs ! i)) =
          (if js_get (rows data ! i) ''Default'' = Str ''CURRENT_TIMESTAMP'' then Null
           else js_get (rows data ! i) ''Default''))"
proof (intro conjI impI)
  assume a: "fst (fields1 mapped rows name tr e data s) = Fulfilled fs \<and> i < length fs \<and>
      d_type (snd (fs ! i)) = Str ''datetime''"
  then obtain field where "fs ! i = field_entry switch_default (rows data ! i) field"
    using fields1_entries[of mapped rows name tr e data s fs i] by blast
  with a show "d_default (snd (fs ! i)) =
          (if js_get (rows data ! i) ''Default'' = Str ''CURRENT_TIMESTAMP'' then Null
           else js_get (rows data ! i) ''Default'')"
    by (simp add: field_entry_def switch_default_def)
next
  assume a: "fst (fields2 mapped rows name tr e data s) = Fulfilled fs \<and> i < length fs \<and>
      d_type (snd (fs ! i)) = Str ''datetime''"
  then obtain field where "fs ! i = field_entry switch_default2 (rows data ! i) field"
    using fields2_entries[of mapped rows name tr e data s fs i] by blast
  with a show "d_default (snd (fs ! i)) =
          (if js_get (rows data ! i) ''Default'' = Str ''CURRENT_TIMESTAMP'' then Null
           else js_get (rows data ! i) ''Default'')"
    by (simp add: field_entry_def switch_default2_def)
qed

theorem datetime_default_witness:
  "fst (fields1 mapped_example rows_of_array ''gallery'' None None describe_gallery (constructor cfg0)) =
     Fulfilled gallery_fields1 \<and>
   d_type (snd (gallery_fields1 ! 3)) = Str ''datetime'' \<and>
   js_get (rows_of_array describe_gallery ! 3) ''Default'' = Str ''CURRENT_TIMESTAMP'' \<and>
   d_default (snd (gallery_fields1 ! 3)) = Null \<and>
   d_type (snd (gallery_fields1 ! 4)) = Str ''datetime'' \<and>
   d_default (snd (gallery_fields1 ! 4)) = Str ''2014-11-21 10:20:45'' \<and>
   fst (fields2 mapped_example rows_of_array ''gallery'' None None describe_gallery (constructor cfg0)) =
     Fulfilled gallery_fields2 \<and>
   d_default (snd (gallery_fields2 ! 3)) = Null"
  using datetime_default [of mapped_example rows_of_array "''gallery''" None None describe_gallery
      "constructor cfg0" gallery_fields1 3]
    datetime_default [of mapped_example rows_of_array "''gallery''" None None describe_gallery
      "constructor cfg0" gallery_fields1 4]
    datetime_default [of mapped_example rows_of_array "''gallery''" None None describe_gallery
      "constructor cfg0" gallery_fields2 3]
    fields1_gallery fields2_gallery gallery_rows
  by (simp add: gallery_fields1_def gallery_fields2_def)

text \<open>
  C5, as the code has it. In the list \<^verbatim>\<open>fields\<close> resolves with, every entry whose logical
  type is \<^verbatim>\<open>boolean\<close> has, in the first copy, the default \<^verbatim>\<open>true\<close> when the column's raw
  default is \<^verbatim>\<open>'1'\<close> and \<^verbatim>\<open>false\<close> for every other raw default (\<^verbatim>\<open>'0'\<close>, \<^verbatim>\<open>null\<close>, any
  other text); in the second copy \<^verbatim>\<open>'1'\<close> gives \<^verbatim>\<open>true\<close>, \<^verbatim>\<open>'0'\<close> gives \<^verbatim>\<open>false\<close> and
  any other raw default is passed through.
\<close>

theorem boolean_default:
  "(fst (fields1 mapped rows name tr e data s) = Fulfilled fs \<and> i < length fs \<and>
      d_type (snd (fs ! i)) = Str ''boolean'' \<longrightarrow>
        d_default (snd (fs ! i)) = Bool (js_get (rows data ! i) ''Default'' = Str ''1'')) \<and>
   (fst (fields2 mapped rows name tr e data s) = Fulfilled fs \<and> i < length fs \<and>
      d_type (snd (fs ! i)) = Str ''boolean'' \<longrightarrow>
        d_default (snd (fs ! i)) =
          (if js_get (rows data ! i) ''Default'' = Str ''1'' then Bool True
           else if js_get (rows data ! i) ''Default'' = Str ''0'' then Bool False
           else js_get (rows data ! i) ''Default''))"
proof (intro conjI impI)
  assume a: "fst (fields1 mapped rows name tr e data s) = Fulfilled fs \<and> i < length fs \<and>
      d_type (snd (fs ! i)) = Str ''boolean''"
  then obtain field where "fs ! i = field_entry switch_default (rows data ! i) field"
    using fields1_entries[of mapped rows name tr e data s fs i] by blast
  with a show "d_default (snd (fs ! i)) = Bool (js_get (rows data ! i) ''Default'' = Str ''1'')"
    by (simp add: field_entry_def switch_default_def)
next
  assume a: "fst (fields2 mapped rows name tr e data s) = Fulfilled fs \<and> i < length fs \<and>
      d_type (snd (fs ! i)) = Str ''boolean''"
  then obtain field where "fs ! i = field_entry switch_default2 (rows data ! i) field"
    using fields2_entries[of mapped rows name tr e data s fs i] by blast
  with a show "d_default (snd (fs ! i)) =
          (if js_get (rows data ! i) ''Default'' = Str ''1'' then Bool True
           else if js_get (rows data ! i) ''Default'' = Str ''0'' then Bool False
           else js_get (rows data ! i) ''Default'')"
    by (simp add: field_entry_def switch_default2_def)
qed

theorem boolean_default_witness:
  "fst (fields1 mapped_example rows_of_array ''gallery'' None None describe_gallery (constructor cfg0)) =
     Fulfilled gallery_fields1 \<and>
   d_type (snd (gallery_fields1 ! 0)) = Str ''boolean'' \<and>
   d_default (snd (gallery_fields1 ! 0)) = Bool True \<and>
   d_type (snd (gallery_fields1 ! 1)) = Str ''boolean'' \<and>
   d_default (snd (gallery_fields1 ! 1)) = Bool False \<and>
   fst (fields2 mapped_example rows_of_array ''gallery'' None None describe_gallery (constructor cfg0)) =
     Fulfilled gallery_fields2 \<and>
   d_type (snd (gallery_fields2 ! 2)) = Str ''boolean'' \<and>
   d_default (snd (gallery_fields2 ! 2)) = Null"
  using boolean_default [of mapped_example rows_of_array "''gallery''" None None describe_gallery
      "constructor cfg0" gallery_fields1 0]
    boolean_default [of mapped_example rows_of_array "''gallery''" None None describe_gallery
      "constructor cfg0" gallery_fields1 1]
    boolean_default [of mapped_example rows_of_array "''gallery''" None None describe_gallery
      "constructor cfg0" gallery_fields2 2]
    fields1_gallery fields2_gallery gallery_rows
  by (simp add: gallery_fields1_def gallery_fields2_def)

text \<open>
  The claim as stated fails on the first copy: a boolean column whose raw default is \<^verbatim>\<open>null\<close>
  gets the default \<^verbatim>\<open>false\<close>, not \<^verbatim>\<open>null\<close>.
\<close>

theorem boolean_null_default_counterexample:
  "fst (fields1 mapped_example rows_of_array ''gallery'' None None describe_gallery (constructor cfg0)) =
     Fulfilled gallery_fields1 \<and>
   d_type (snd (gallery_fields1 ! 2)) = Str ''boolean'' \<and>
   js_get (rows_of_array describe_gallery ! 2) ''Default'' = Null \<and>
   d_default (snd (gallery_fields1 ! 2)) = Bool False \<and>
   d_default (snd (gallery_fields1 ! 2)) \<noteq> js_get (rows_of_array describe_gallery ! 2) ''Default''"
  using fields1_gallery gallery_rows by (simp add: gallery_fields1_def)

section \<open>Properties of the conversion\<close>

text \<open>
  C8. Converting \<^verbatim>\<open>null\<close> to storage yields the literal \<^verbatim>\<open>NULL\<close> for every logical
  type and every conversion table, so also for types the table does not have.
\<close>

theorem null_to_storage:
  "convert tbl ToStorage logicalType Null = Str ''NULL''"
  by (simp add: convert_def)

end
